theory Spec2Isabelle
  imports Complex_Main
begin

section \<open>Cart store (client side)\<close>

text \<open>
  The cart store of the storefront: a list of cart items and a visibility flag, changed
  only through its actions. A quantity is an \<open>int\<close>, a price a \<open>rat\<close>; the store
  compares quantities and adds them, and does not compute with prices. An optional field (\<open>variantId?\<close>) is an \<open>option\<close>, with
  \<open>None\<close> for \<open>undefined\<close>. The free-form \<open>customizations\<close> payload is a type
  parameter \<open>'c\<close>; \<open>JSON.stringify\<close> on a defined payload is the parameter \<open>ser\<close> of the
  actions that use it (it yields \<open>None\<close> where JavaScript yields \<open>undefined\<close>).
\<close>

record 'c CartItem =
  ci_id :: string
  ci_productId :: string
  ci_variantId :: "string option"
  ci_name :: string
  ci_image :: string
  ci_price :: rat
  ci_quantity :: int
  ci_size :: "string option"
  ci_color :: "string option"
  ci_customizations :: "'c option"
  ci_maxQuantity :: int
  ci_sku :: string

record 'c CartState =
  items :: "'c CartItem list"
  isOpen :: bool

text \<open>
  What an action does besides changing the state: the toasts it shows and the timer it
  starts. \<open>Toast_error_stock n\<close> is \<open>toast.error(`Only ${n} items available in stock`)\<close>,
  the only error signal of the store; the other toasts are the success notices, and
  \<open>SetTimeout_closeCart ms\<close> is the deferred \<open>closeCart\<close>.
\<close>

datatype effect =
    Toast_error_stock int
  | Toast_success_updated
  | Toast_success_added string
  | Toast_success_removed string
  | Toast_success_cleared
  | SetTimeout_closeCart nat

definition JSON_stringify :: "('c \<Rightarrow> string option) \<Rightarrow> 'c option \<Rightarrow> string option" where
  "JSON_stringify ser c = (case c of None \<Rightarrow> None | Some v \<Rightarrow> ser v)"

text \<open>\<open>Array.prototype.findIndex\<close>: the first index whose element satisfies the predicate;
  \<open>None\<close> stands for the result \<open>-1\<close>.\<close>

fun findIndex :: "('a \<Rightarrow> bool) \<Rightarrow> 'a list \<Rightarrow> nat option" where
  "findIndex P [] = None"
| "findIndex P (x # xs) =
     (if P x then Some 0 else (case findIndex P xs of None \<Rightarrow> None | Some i \<Rightarrow> Some (Suc i)))"

text \<open>The predicate of \<open>addItem\<close>'s \<open>findIndex\<close>: same product, same variant, same
  serialized customizations.\<close>

definition same_line :: "('c \<Rightarrow> string option) \<Rightarrow> 'c CartItem \<Rightarrow> 'c CartItem \<Rightarrow> bool" where
  "same_line ser item newItem \<longleftrightarrow>
     ci_productId item = ci_productId newItem \<and>
     ci_variantId item = ci_variantId newItem \<and>
     JSON_stringify ser (ci_customizations item) = JSON_stringify ser (ci_customizations newItem)"

definition openCart :: "'c CartState \<Rightarrow> 'c CartState" where
  "openCart st = st\<lparr>isOpen := True\<rparr>"

definition closeCart :: "'c CartState \<Rightarrow> 'c CartState" where
  "closeCart st = st\<lparr>isOpen := False\<rparr>"

definition toggleCart :: "'c CartState \<Rightarrow> 'c CartState" where
  "toggleCart st = st\<lparr>isOpen := \<not> isOpen st\<rparr>"

text \<open>
  \<open>addItem\<close>. The argument \<open>fresh\<close> is the value of \<open>crypto.randomUUID()\<close>; \<open>newItem\<close>
  is an item without identity, so its \<open>ci_id\<close> is overwritten. Both rejections return
  before \<open>openCart\<close> and the timer.
\<close>

definition addItem ::
  "('c \<Rightarrow> string option) \<Rightarrow> string \<Rightarrow> 'c CartItem \<Rightarrow> 'c CartState \<Rightarrow> effect list \<times> 'c CartState" where
  "addItem ser fresh newItem st =
     (case findIndex (\<lambda>item. same_line ser item newItem) (items st) of
        Some existingItemIndex \<Rightarrow>
          (let existingItem = items st ! existingItemIndex;
               newQuantity = ci_quantity existingItem + ci_quantity newItem
           in if newQuantity > ci_maxQuantity existingItem
              then ([Toast_error_stock (ci_maxQuantity existingItem)], st)
              else ([Toast_success_updated, SetTimeout_closeCart 3000],
                    openCart (st\<lparr>items := (items st)
                       [existingItemIndex := existingItem\<lparr>ci_quantity := newQuantity\<rparr>]\<rparr>)))
      | None \<Rightarrow>
          (if ci_quantity newItem > ci_maxQuantity newItem
           then ([Toast_error_stock (ci_maxQuantity newItem)], st)
           else ([Toast_success_added (ci_name newItem), SetTimeout_closeCart 3000],
                 openCart (st\<lparr>items := items st @ [newItem\<lparr>ci_id := fresh\<rparr>]\<rparr>))))"

definition removeItem :: "string \<Rightarrow> 'c CartState \<Rightarrow> effect list \<times> 'c CartState" where
  "removeItem itemId st =
     ((case find (\<lambda>item. ci_id item = itemId) (items st) of
         Some item \<Rightarrow> [Toast_success_removed (ci_name item)]
       | None \<Rightarrow> []),
      st\<lparr>items := filter (\<lambda>item. ci_id item \<noteq> itemId) (items st)\<rparr>)"

definition updateQuantity :: "string \<Rightarrow> int \<Rightarrow> 'c CartState \<Rightarrow> effect list \<times> 'c CartState" where
  "updateQuantity itemId quantity st =
     (if quantity \<le> 0 then removeItem itemId st
      else (case find (\<lambda>item. ci_id item = itemId) (items st) of
              None \<Rightarrow> ([], st)
            | Some item \<Rightarrow>
                if quantity > ci_maxQuantity item
                then ([Toast_error_stock (ci_maxQuantity item)], st)
                else ([], st\<lparr>items := map (\<lambda>item. if ci_id item = itemId
                                                   then item\<lparr>ci_quantity := quantity\<rparr>
                                                   else item) (items st)\<rparr>)))"

definition clearCart :: "'c CartState \<Rightarrow> effect list \<times> 'c CartState" where
  "clearCart st = ([Toast_success_cleared], st\<lparr>items := []\<rparr>)"


text \<open>The four operations that change the item sequence, as one type.\<close>

datatype 'c cart_op =
    AddItem string "'c CartItem"
  | RemoveItem string
  | UpdateQuantity string int
  | ClearCart

fun apply_op :: "('c \<Rightarrow> string option) \<Rightarrow> 'c cart_op \<Rightarrow> 'c CartState \<Rightarrow> effect list \<times> 'c CartState" where
  "apply_op ser (AddItem fresh newItem) st = addItem ser fresh newItem st"
| "apply_op ser (RemoveItem itemId) st = removeItem itemId st"
| "apply_op ser (UpdateQuantity itemId quantity) st = updateQuantity itemId quantity st"
| "apply_op ser ClearCart st = clearCart st"

text \<open>A sequence of \<open>addItem\<close> calls, each with the identity generated for it.\<close>

fun addItems :: "('c \<Rightarrow> string option) \<Rightarrow> (string \<times> 'c CartItem) list \<Rightarrow> 'c CartState \<Rightarrow> 'c CartState" where
  "addItems ser [] st = st"
| "addItems ser (call # calls) st = addItems ser calls (snd (addItem ser (fst call) (snd call) st))"

text \<open>The deduplication tuple of an item, and the sum of the requested quantities.\<close>

definition line_key :: "('c \<Rightarrow> string option) \<Rightarrow> 'c CartItem \<Rightarrow> string \<times> string option \<times> string option" where
  "line_key ser item =
     (ci_productId item, ci_variantId item, JSON_stringify ser (ci_customizations item))"

definition requested :: "(string \<times> 'c CartItem) list \<Rightarrow> int" where
  "requested calls = sum_list (map (\<lambda>call. ci_quantity (snd call)) calls)"

text \<open>The entry a run of calls with one tuple ends in: the item of the first call, with the
  identity generated for it and the sum of all requested quantities.\<close>

definition merged_entry :: "(string \<times> 'c CartItem) list \<Rightarrow> 'c CartItem" where
  "merged_entry calls = (snd (hd calls))\<lparr>ci_id := fst (hd calls), ci_quantity := requested calls\<rparr>"

text \<open>The invariant of the data model: every quantity lies in \<open>[1, maxQuantity]\<close>; and
  the identities of the items are pairwise different, as generated identities are.\<close>

definition quantities_in_range :: "'c CartState \<Rightarrow> bool" where
  "quantities_in_range st \<longleftrightarrow>
     list_all (\<lambda>item. 1 \<le> ci_quantity item \<and> ci_quantity item \<le> ci_maxQuantity item) (items st)"

definition cart_ok :: "'c CartState \<Rightarrow> bool" where
  "cart_ok st \<longleftrightarrow> quantities_in_range st \<and> distinct (map ci_id (items st))"

text \<open>
  When an operation asks for more than the ceiling of the entry it lands on:
  \<open>over_limit\<close> gives that ceiling. For \<open>addItem\<close> the entry is the first one with the
  same tuple, or the new item itself; for \<open>updateQuantity\<close> with a positive quantity it
  is the first entry with the identity.
\<close>

fun over_limit :: "('c \<Rightarrow> string option) \<Rightarrow> 'c cart_op \<Rightarrow> 'c CartState \<Rightarrow> int option" where
  "over_limit ser (AddItem fresh newItem) st =
     (case findIndex (\<lambda>item. same_line ser item newItem) (items st) of
        Some i \<Rightarrow>
          if ci_quantity (items st ! i) + ci_quantity newItem > ci_maxQuantity (items st ! i)
          then Some (ci_maxQuantity (items st ! i)) else None
      | None \<Rightarrow>
          if ci_quantity newItem > ci_maxQuantity newItem
          then Some (ci_maxQuantity newItem) else None)"
| "over_limit ser (UpdateQuantity itemId quantity) st =
     (case find (\<lambda>item. ci_id item = itemId) (items st) of
        Some item \<Rightarrow> if 0 < quantity \<and> quantity > ci_maxQuantity item
                     then Some (ci_maxQuantity item) else None
      | None \<Rightarrow> None)"
| "over_limit ser (RemoveItem itemId) st = None"
| "over_limit ser ClearCart st = None"

text \<open>An \<open>addItem\<close> call is well-formed when it asks for at least one piece and its
  generated identity is new to the cart; the other operations always are.\<close>

fun well_formed_op :: "'c cart_op \<Rightarrow> 'c CartState \<Rightarrow> bool" where
  "well_formed_op (AddItem fresh newItem) st \<longleftrightarrow>
     1 \<le> ci_quantity newItem \<and> fresh \<notin> ci_id ` set (items st)"
| "well_formed_op (RemoveItem itemId) st \<longleftrightarrow> True"
| "well_formed_op (UpdateQuantity itemId quantity) st \<longleftrightarrow> True"
| "well_formed_op ClearCart st \<longleftrightarrow> True"

subsection \<open>Persistence\<close>

text \<open>
  The store is wrapped in the \<open>persist\<close> middleware with \<open>partialize\<close> keeping only
  \<open>items\<close>. The middleware itself is a library: on every change it writes the
  partialized state to local storage as JSON, and on load it merges what it reads over
  the initial state, \<open>{...currentState, ...persistedState}\<close>. JSON text is not modelled:
  the storage holds the partialized state, that is, \<open>JSON.parse (JSON.stringify v)\<close> is
  taken to give \<open>v\<close> back on the plain data of a cart.
\<close>

record 'c Persisted =
  persisted_items :: "'c CartItem list"

definition initialState :: "'c CartState" where
  "initialState = \<lparr>items = [], isOpen = False\<rparr>"

definition partialize :: "'c CartState \<Rightarrow> 'c Persisted" where
  "partialize st = \<lparr>persisted_items = items st\<rparr>"

definition merge :: "'c Persisted \<Rightarrow> 'c CartState \<Rightarrow> 'c CartState" where
  "merge persistedState currentState = currentState\<lparr>items := persisted_items persistedState\<rparr>"

definition rehydrate :: "'c Persisted option \<Rightarrow> 'c CartState" where
  "rehydrate storage =
     (case storage of None \<Rightarrow> initialState | Some persistedState \<Rightarrow> merge persistedState initialState)"

subsection \<open>Shipping helper of the cart\<close>

definition calculateShipping_cart :: "rat \<Rightarrow> rat" where
  "calculateShipping_cart totalPrice =
     (if totalPrice \<ge> 150 then 0
      else if totalPrice \<ge> 100 then 9.99
      else if totalPrice \<ge> 50 then 14.99
      else 19.99)"

text \<open>The shipping schedule in the words of the specification: one rate per band of the
  subtotal, each band closed at its lower end.\<close>

definition shipping_schedule :: "rat \<Rightarrow> rat" where
  "shipping_schedule subtotal =
     (if subtotal < 50 then 19.99
      else if subtotal < 100 then 14.99
      else if subtotal < 150 then 9.99
      else 0)"

section \<open>Checkout endpoint (server side)\<close>

text \<open>
  The \<open>POST\<close> handler of the checkout route. The database tables are lists of rows;
  \<open>Decimal\<close> columns are \<open>rat\<close>, \<open>Int\<close> columns are \<open>int\<close>, a nullable column is an
  \<open>option\<close>. Only the columns the handler reads or writes are kept.
\<close>

record ProductImage =
  img_url :: string
  img_sortOrder :: int

record ProductVariant =
  v_id :: string
  v_sku :: string
  v_price :: rat
  v_stockQuantity :: int

record Product =
  p_id :: string
  p_name :: string
  p_basePrice :: rat
  p_salePrice :: "rat option"
  p_sku :: string
  p_stockQuantity :: int
  p_images :: "ProductImage list"
  p_variants :: "ProductVariant list"
  p_isActive :: bool

datatype OrderStatus = PENDING | CONFIRMED | PROCESSING | SHIPPED | DELIVERED | CANCELLED | REFUNDED

datatype PaymentStatus = PAYMENT_PENDING | PAYMENT_PAID | PAYMENT_FAILED | PAYMENT_REFUNDED

record 'c OrderItem =
  oi_productId :: string
  oi_quantity :: int
  oi_unitPrice :: rat
  oi_totalPrice :: rat
  oi_productName :: string
  oi_productImage :: "string option"
  oi_productSku :: string
  oi_customizations :: "'c option"

record ('c, 'a) Order =
  o_id :: string
  o_orderNumber :: string
  o_userId :: "string option"
  o_status :: OrderStatus
  o_paymentStatus :: PaymentStatus
  o_subtotal :: rat
  o_taxAmount :: rat
  o_shippingAmount :: rat
  o_discountAmount :: rat
  o_totalAmount :: rat
  o_shippingAddress :: 'a
  o_billingAddress :: 'a
  o_customerNotes :: "string option"
  o_stripePaymentId :: "string option"
  o_items :: "'c OrderItem list"

text \<open>One entry of the request's \<open>items\<close>, and the request body. \<open>rq_items = None\<close> is a
  body without \<open>items\<close>.\<close>

record 'c RequestItem =
  rq_productId :: string
  rq_variantId :: "string option"
  rq_quantity :: int
  rq_customizations :: "'c option"

record ('c, 'a) RequestBody =
  rq_items :: "'c RequestItem list option"
  rq_shippingAddress :: 'a
  rq_billingAddress :: 'a
  rq_customerNotes :: "string option"

text \<open>A line item sent to the payment provider (its name, amount in cents and quantity;
  the description, images and metadata have no part in what the handler does next).\<close>

record StripeLineItem =
  sl_name :: string
  sl_unit_amount :: int
  sl_quantity :: int

record StripeSession =
  ss_id :: string
  ss_url :: "string option"

text \<open>A thrown value: an \<open>Error\<close> with its message, or anything else.\<close>

datatype thrown = Thrown_Error string | Thrown_other

text \<open>
  What the handler's surroundings do in one request: the session lookup (the user's id,
  if any), the clock, the identity the database gives the new order, the payment
  provider's answer, and whether a database call throws. \<open>env_unique_violation\<close> is what
  the database throws when a unique column would repeat.
\<close>

record env =
  env_session :: "thrown + string option"
  env_date_now :: string
  env_findMany_fault :: "thrown option"
  env_create_fault :: "thrown option"
  env_unique_violation :: thrown
  env_new_order_id :: string
  env_stripe :: "thrown + StripeSession"
  env_update_fault :: "thrown option"

datatype response =
    Json_error nat string
  | Json_session string "string option" string

fun http_status :: "response \<Rightarrow> nat" where
  "http_status (Json_error status message) = status"
| "http_status (Json_session sessionId url orderId) = 200"

text \<open>What the handler does outside the order table: the call to the payment provider
  and the line written by \<open>console.error\<close>.\<close>

datatype call = Stripe_sessions_create "StripeLineItem list" | Console_error thrown

definition calculateShipping :: "rat \<Rightarrow> rat" where
  "calculateShipping subtotal =
     (if subtotal \<ge> 150 then 0
      else if subtotal \<ge> 100 then 9.99
      else if subtotal \<ge> 50 then 14.99
      else 19.99)"

text \<open>
  The handler computes with JavaScript numbers, that is with doubles: it converts a
  \<open>Decimal\<close> price with \<open>toNumber()\<close> and then multiplies and adds, and each of these
  steps rounds to a double. A number is modelled by its exact value, a rational; the
  three rounding steps are the fields of \<open>arith\<close>, a parameter of everything that
  computes with money, so that nothing is assumed about how they round. Comparisons of
  numbers do not round. A quantity is a whole number and stands for itself.
\<close>

record arith =
  toNumber :: "rat \<Rightarrow> rat"
  num_mul :: "rat \<Rightarrow> rat \<Rightarrow> rat"
  num_add :: "rat \<Rightarrow> rat \<Rightarrow> rat"

text \<open>\<open>Math.round\<close>: the nearest integer, halves towards \<open>+\<infinity>\<close>.\<close>

definition Math_round :: "rat \<Rightarrow> int" where
  "Math_round x = \<lfloor>x + 1 / 2\<rfloor>"

text \<open>
  \<open>prisma.product.findMany\<close> with \<open>id in productIds\<close>, \<open>isActive\<close>, and the first image
  by \<open>sortOrder\<close> included. Each row of the table is returned at most once, however often
  its id occurs in \<open>productIds\<close>.
\<close>

definition product_findMany :: "Product list \<Rightarrow> string list \<Rightarrow> Product list" where
  "product_findMany table productIds =
     map (\<lambda>p. p\<lparr>p_images := take 1 (sort_key img_sortOrder (p_images p))\<rparr>)
       (filter (\<lambda>p. p_id p \<in> set productIds \<and> p_isActive p) table)"

text \<open>A \<open>variantId\<close> counts as given when it is truthy: defined and not the empty string.\<close>

definition variant_given :: "'c RequestItem \<Rightarrow> bool" where
  "variant_given cartItem \<longleftrightarrow> (case rq_variantId cartItem of None \<Rightarrow> False | Some v \<Rightarrow> v \<noteq> [])"

text \<open>\<open>product.variants.find(v => v.id === cartItem.variantId)\<close>.\<close>

definition find_variant :: "Product \<Rightarrow> 'c RequestItem \<Rightarrow> ProductVariant option" where
  "find_variant product cartItem =
     find (\<lambda>v. Some (v_id v) = rq_variantId cartItem) (p_variants product)"

text \<open>\<open>variant ? variant.price : (product.salePrice || product.basePrice)\<close>; a \<open>Decimal\<close>
  object is truthy whatever its value, so the sale price is taken whenever it is set.\<close>

definition unit_price :: "Product \<Rightarrow> ProductVariant option \<Rightarrow> rat" where
  "unit_price product variant =
     (case variant of
        Some v \<Rightarrow> v_price v
      | None \<Rightarrow> (case p_salePrice product of Some sale \<Rightarrow> sale | None \<Rightarrow> p_basePrice product))"

definition available_stock :: "Product \<Rightarrow> ProductVariant option \<Rightarrow> int" where
  "available_stock product variant =
     (case variant of Some v \<Rightarrow> v_stockQuantity v | None \<Rightarrow> p_stockQuantity product)"

text \<open>\<open>variant?.sku || product.sku\<close>: an empty variant sku is falsy.\<close>

definition snapshot_sku :: "Product \<Rightarrow> ProductVariant option \<Rightarrow> string" where
  "snapshot_sku product variant =
     (case variant of
        Some v \<Rightarrow> if v_sku v \<noteq> [] then v_sku v else p_sku product
      | None \<Rightarrow> p_sku product)"

text \<open>The variant check of the loop: no variant when none is given, the variant of the
  product with that id, or the failure when the product has none.\<close>

definition resolve_variant :: "Product \<Rightarrow> 'c RequestItem \<Rightarrow> response + ProductVariant option" where
  "resolve_variant product cartItem =
     (case rq_variantId cartItem of
        None \<Rightarrow> Inr None
      | Some variantId \<Rightarrow>
          if variantId = [] then Inr None
          else (case find (\<lambda>v. v_id v = variantId) (p_variants product) of
                  None \<Rightarrow> Inl (Json_error 400 (''Product variant '' @ variantId @ '' not found''))
                | Some v \<Rightarrow> Inr (Some v)))"

text \<open>The \<open>for\<close> loop over the items: it returns the first failure, or the line items and
  the subtotal accumulated over all lines, \<open>subtotal += price.toNumber() * quantity\<close>
  line after line.\<close>

fun validate_lines ::
  "arith \<Rightarrow> Product list \<Rightarrow> 'c RequestItem list \<Rightarrow> StripeLineItem list \<Rightarrow> rat
     \<Rightarrow> response + StripeLineItem list \<times> rat" where
  "validate_lines ar products [] lineItems subtotal = Inr (lineItems, subtotal)"
| "validate_lines ar products (cartItem # rest) lineItems subtotal =
     (case find (\<lambda>p. p_id p = rq_productId cartItem) products of
        None \<Rightarrow> Inl (Json_error 400 (''Product '' @ rq_productId cartItem @ '' not found''))
      | Some product \<Rightarrow>
          (case resolve_variant product cartItem of
             Inl failure \<Rightarrow> Inl failure
           | Inr variant \<Rightarrow>
               (let price = unit_price product variant;
                    stock = available_stock product variant
                in if rq_quantity cartItem > stock
                   then Inl (Json_error 400 (''Insufficient stock for '' @ p_name product))
                   else validate_lines ar products rest
                          (lineItems @
                             [\<lparr>sl_name = p_name product,
                               sl_unit_amount = Math_round (num_mul ar (toNumber ar price) 100),
                               sl_quantity = rq_quantity cartItem\<rparr>])
                          (num_add ar subtotal
                             (num_mul ar (toNumber ar price) (of_int (rq_quantity cartItem)))))))"

text \<open>The shipping line, added when shipping is charged.\<close>

definition with_shipping :: "arith \<Rightarrow> StripeLineItem list \<Rightarrow> rat \<Rightarrow> StripeLineItem list" where
  "with_shipping ar lineItems shippingCost =
     (if shippingCost > 0
      then lineItems @
             [\<lparr>sl_name = ''Shipping'',
               sl_unit_amount = Math_round (num_mul ar shippingCost 100),
               sl_quantity = 1\<rparr>]
      else lineItems)"

text \<open>
  The callback of \<open>items.map\<close> inside \<open>order.create\<close>. It looks the product up again with
  a non-null assertion; \<open>None\<close> is the \<open>TypeError\<close> of reading \<open>variants\<close> of
  \<open>undefined\<close>. A variant that is not found gives the product's own price and sku here.
\<close>

definition order_item :: "arith \<Rightarrow> Product list \<Rightarrow> 'c RequestItem \<Rightarrow> 'c OrderItem option" where
  "order_item ar products cartItem =
     (case find (\<lambda>p. p_id p = rq_productId cartItem) products of
        None \<Rightarrow> None
      | Some product \<Rightarrow>
          (let variant = (if variant_given cartItem then find_variant product cartItem else None);
               price = unit_price product variant
           in Some \<lparr>oi_productId = rq_productId cartItem,
                    oi_quantity = rq_quantity cartItem,
                    oi_unitPrice = price,
                    oi_totalPrice = num_mul ar (toNumber ar price) (of_int (rq_quantity cartItem)),
                    oi_productName = p_name product,
                    oi_productImage = (case p_images product of [] \<Rightarrow> None | i # _ \<Rightarrow> Some (img_url i)),
                    oi_productSku = snapshot_sku product variant,
                    oi_customizations = rq_customizations cartItem\<rparr>))"

fun order_items :: "arith \<Rightarrow> Product list \<Rightarrow> 'c RequestItem list \<Rightarrow> 'c OrderItem list option" where
  "order_items ar products [] = Some []"
| "order_items ar products (cartItem # rest) =
     (case order_item ar products cartItem of
        None \<Rightarrow> None
      | Some oi \<Rightarrow> (case order_items ar products rest of None \<Rightarrow> None | Some ois \<Rightarrow> Some (oi # ois)))"

definition TypeError_undefined :: thrown where
  "TypeError_undefined = Thrown_Error ''Cannot read properties of undefined''"

text \<open>\<open>prisma.order.create\<close>: the row is appended, unless the call fails or the new row
  would repeat an \<open>id\<close> or an \<open>orderNumber\<close> (both unique in the schema).\<close>

definition order_create ::
  "env \<Rightarrow> ('c, 'a) Order \<Rightarrow> ('c, 'a) Order list \<Rightarrow> thrown + ('c, 'a) Order list" where
  "order_create env order orders =
     (case env_create_fault env of
        Some t \<Rightarrow> Inl t
      | None \<Rightarrow>
          if o_id order \<in> set (map o_id orders) \<or> o_orderNumber order \<in> set (map o_orderNumber orders)
          then Inl (env_unique_violation env)
          else Inr (orders @ [order]))"

text \<open>\<open>prisma.order.update\<close> of \<open>stripePaymentId\<close> where \<open>id\<close> is the order's.\<close>

definition order_update ::
  "env \<Rightarrow> string \<Rightarrow> string \<Rightarrow> ('c, 'a) Order list \<Rightarrow> thrown + ('c, 'a) Order list" where
  "order_update env orderId sessionId orders =
     (case env_update_fault env of
        Some t \<Rightarrow> Inl t
      | None \<Rightarrow>
          Inr (map (\<lambda>order. if o_id order = orderId
                            then order\<lparr>o_stripePaymentId := Some sessionId\<rparr>
                            else order) orders))"

text \<open>The handler from the order number on: create the pending order, open the payment
  session, link the two. The result is the response or the thrown value, the order table
  and the calls made.\<close>

definition place_order ::
  "arith \<Rightarrow> env \<Rightarrow> string option \<Rightarrow> ('c, 'a) RequestBody \<Rightarrow> 'c RequestItem list \<Rightarrow> Product list
     \<Rightarrow> StripeLineItem list \<Rightarrow> rat \<Rightarrow> ('c, 'a) Order list
     \<Rightarrow> (thrown + response) \<times> ('c, 'a) Order list \<times> call list" where
  "place_order ar env userId body its products lineItems subtotal orders =
     (let shippingCost = calculateShipping subtotal;
          lineItems' = with_shipping ar lineItems shippingCost;
          orderNumber = ''GD'' @ env_date_now env
      in case order_items ar products its of
           None \<Rightarrow> (Inl TypeError_undefined, orders, [])
         | Some ois \<Rightarrow>
             (case order_create env
                     \<lparr>o_id = env_new_order_id env,
                      o_orderNumber = orderNumber,
                      o_userId = userId,
                      o_status = PENDING,
                      o_paymentStatus = PAYMENT_PENDING,
                      o_subtotal = subtotal,
                      o_taxAmount = 0,
                      o_shippingAmount = shippingCost,
                      o_discountAmount = 0,
                      o_totalAmount = num_add ar subtotal shippingCost,
                      o_shippingAddress = rq_shippingAddress body,
                      o_billingAddress = rq_billingAddress body,
                      o_customerNotes = rq_customerNotes body,
                      o_stripePaymentId = None,
                      o_items = ois\<rparr> orders of
                Inl t \<Rightarrow> (Inl t, orders, [])
              | Inr orders1 \<Rightarrow>
                  (case env_stripe env of
                     Inl t \<Rightarrow> (Inl t, orders1, [Stripe_sessions_create lineItems'])
                   | Inr checkoutSession \<Rightarrow>
                       (case order_update env (env_new_order_id env) (ss_id checkoutSession) orders1 of
                          Inl t \<Rightarrow> (Inl t, orders1, [Stripe_sessions_create lineItems'])
                        | Inr orders2 \<Rightarrow>
                            (Inr (Json_session (ss_id checkoutSession) (ss_url checkoutSession)
                                    (env_new_order_id env)),
                             orders2, [Stripe_sessions_create lineItems'])))))"

text \<open>The body of the \<open>try\<close> block. \<open>req\<close> is the outcome of \<open>request.json()\<close>.\<close>

definition checkout_try ::
  "arith \<Rightarrow> env \<Rightarrow> Product list \<Rightarrow> thrown + ('c, 'a) RequestBody \<Rightarrow> ('c, 'a) Order list
     \<Rightarrow> (thrown + response) \<times> ('c, 'a) Order list \<times> call list" where
  "checkout_try ar env table req orders =
     (case env_session env of
        Inl t \<Rightarrow> (Inl t, orders, [])
      | Inr userId \<Rightarrow>
     (case req of
        Inl t \<Rightarrow> (Inl t, orders, [])
      | Inr body \<Rightarrow>
     (case rq_items body of
        None \<Rightarrow> (Inr (Json_error 400 ''No items in cart''), orders, [])
      | Some its \<Rightarrow>
          if length its = 0 then (Inr (Json_error 400 ''No items in cart''), orders, [])
          else
            (let productIds = map rq_productId its
             in case env_findMany_fault env of
                  Some t \<Rightarrow> (Inl t, orders, [])
                | None \<Rightarrow>
                    (let products = product_findMany table productIds
                     in if length products \<noteq> length productIds
                        then (Inr (Json_error 400 ''Some products are no longer available''),
                              orders, [])
                        else
                          (case validate_lines ar products its [] 0 of
                             Inl failure \<Rightarrow> (Inr failure, orders, [])
                           | Inr (lineItems, subtotal) \<Rightarrow>
                               place_order ar env userId body its products lineItems subtotal
                                 orders))))))"

text \<open>The handler: the \<open>try\<close> block, and the \<open>catch\<close> that logs the thrown value and
  answers 500 with the error's own message, or with a fixed text when the thrown value is
  not an \<open>Error\<close>.\<close>

definition failure_message :: "thrown \<Rightarrow> string" where
  "failure_message t =
     (case t of Thrown_Error message \<Rightarrow> message | Thrown_other \<Rightarrow> ''Failed to create checkout session'')"

definition POST ::
  "arith \<Rightarrow> env \<Rightarrow> Product list \<Rightarrow> thrown + ('c, 'a) RequestBody \<Rightarrow> ('c, 'a) Order list
     \<Rightarrow> response \<times> ('c, 'a) Order list \<times> call list" where
  "POST ar env table req orders =
     (case checkout_try ar env table req orders of
        (Inr resp, orders', calls) \<Rightarrow> (resp, orders', calls)
      | (Inl error, orders', calls) \<Rightarrow>
          (Json_error 500 (failure_message error), orders', calls @ [Console_error error]))"

subsection \<open>What an order line must record\<close>

text \<open>
  The effective price of the glossary, and the relation between a requested line and
  the order line that snapshots it, in the words of the specification: the order line
  names a fetched product with the requested id and carries that product's name and
  first image; its unit price is the price of the requested variant of that product when
  a variant is given, and the product's effective price otherwise; its sku is the
  variant's (the product's when the variant has none or no variant is given).
\<close>

definition effective_price :: "Product \<Rightarrow> rat" where
  "effective_price p = (case p_salePrice p of Some sale \<Rightarrow> sale | None \<Rightarrow> p_basePrice p)"

definition snapshot_of :: "arith \<Rightarrow> Product list \<Rightarrow> 'c RequestItem \<Rightarrow> 'c OrderItem \<Rightarrow> bool" where
  "snapshot_of ar products it oi \<longleftrightarrow>
     (\<exists>p\<in>set products.
        p_id p = rq_productId it \<and>
        oi_productId oi = rq_productId it \<and>
        oi_quantity oi = rq_quantity it \<and>
        oi_customizations oi = rq_customizations it \<and>
        oi_productName oi = p_name p \<and>
        oi_productImage oi = (case p_images p of [] \<Rightarrow> None | i # _ \<Rightarrow> Some (img_url i)) \<and>
        oi_totalPrice oi = num_mul ar (toNumber ar (oi_unitPrice oi)) (of_int (oi_quantity oi)) \<and>
        (if variant_given it
         then (\<exists>v\<in>set (p_variants p).
                 Some (v_id v) = rq_variantId it \<and>
                 oi_unitPrice oi = v_price v \<and>
                 oi_productSku oi = (if v_sku v \<noteq> [] then v_sku v else p_sku p))
         else oi_unitPrice oi = effective_price p \<and> oi_productSku oi = p_sku p))"

text \<open>The sum over the lines of unit price times quantity: starting from 0, each line
  adds its unit price, as a number, times its quantity, in the handler's arithmetic and
  in the order of the lines.\<close>

definition line_step :: "arith \<Rightarrow> rat \<Rightarrow> 'c OrderItem \<Rightarrow> rat" where
  "line_step ar subtotal oi =
     num_add ar subtotal (num_mul ar (toNumber ar (oi_unitPrice oi)) (of_int (oi_quantity oi)))"

definition lines_total :: "arith \<Rightarrow> 'c OrderItem list \<Rightarrow> rat" where
  "lines_total ar ois = foldl (line_step ar) 0 ois"

section \<open>Catalog endpoint (server side)\<close>

text \<open>
  The query parameters after \<open>Object.fromEntries\<close>: a map from names to strings.
  \<open>parseInt\<close> and \<open>parseFloat\<close> are parameters, with the type \<open>'n\<close> of JavaScript numbers
  (\<open>NaN\<close> among them). Every field of the schema is an optional string that is
  transformed, never checked, except \<open>sortBy\<close>, which must be one of five words.
\<close>

datatype SortBy = Featured | Price_asc | Price_desc | Name | Newest

datatype ZodError = Invalid_enum_value string

record 'n ProductQuery =
  q_page :: 'n
  q_limit :: 'n
  q_category :: "string option"
  q_search :: "string option"
  q_minPrice :: "'n option"
  q_maxPrice :: "'n option"
  q_occasion :: "string option"
  q_fabric :: "string option"
  q_color :: "string option"
  q_size :: "string option"
  q_sortBy :: SortBy
  q_inStock :: bool

text \<open>\<open>val || d\<close> on an optional string: the default when it is undefined or empty.\<close>

definition or_default :: "string option \<Rightarrow> string \<Rightarrow> string" where
  "or_default val d = (case val of None \<Rightarrow> d | Some v \<Rightarrow> if v = [] then d else v)"

text \<open>\<open>val ? parseFloat(val) : undefined\<close>.\<close>

definition optional_number :: "(string \<Rightarrow> 'n) \<Rightarrow> string option \<Rightarrow> 'n option" where
  "optional_number parseFloat val =
     (case val of None \<Rightarrow> None | Some v \<Rightarrow> if v = [] then None else Some (parseFloat v))"

text \<open>\<open>z.enum([...]).optional().default('featured')\<close>.\<close>

definition sortBy_parse :: "string option \<Rightarrow> ZodError + SortBy" where
  "sortBy_parse val =
     (case val of
        None \<Rightarrow> Inr Featured
      | Some v \<Rightarrow>
          if v = ''featured'' then Inr Featured
          else if v = ''price-asc'' then Inr Price_asc
          else if v = ''price-desc'' then Inr Price_desc
          else if v = ''name'' then Inr Name
          else if v = ''newest'' then Inr Newest
          else Inl (Invalid_enum_value v))"

definition ProductQuerySchema_parse ::
  "(string \<Rightarrow> 'n) \<Rightarrow> (string \<Rightarrow> 'n) \<Rightarrow> (string \<rightharpoonup> string) \<Rightarrow> ZodError + 'n ProductQuery" where
  "ProductQuerySchema_parse parseInt parseFloat queryParams =
     (case sortBy_parse (queryParams ''sortBy'') of
        Inl e \<Rightarrow> Inl e
      | Inr sortBy \<Rightarrow>
          Inr \<lparr>q_page = parseInt (or_default (queryParams ''page'') ''1''),
               q_limit = parseInt (or_default (queryParams ''limit'') ''12''),
               q_category = queryParams ''category'',
               q_search = queryParams ''search'',
               q_minPrice = optional_number parseFloat (queryParams ''minPrice''),
               q_maxPrice = optional_number parseFloat (queryParams ''maxPrice''),
               q_occasion = queryParams ''occasion'',
               q_fabric = queryParams ''fabric'',
               q_color = queryParams ''color'',
               q_size = queryParams ''size'',
               q_sortBy = sortBy,
               q_inStock = (queryParams ''inStock'' = Some ''true'')\<rparr>)"

text \<open>
  The \<open>GET\<close> handler. Everything after the parse (building the query, running it,
  shaping the products) is the parameter \<open>run_query\<close>: it gives the response body or the
  value thrown, which is never a \<open>ZodError\<close>, since only the parse throws one.
\<close>

datatype 'b catalog_response =
    Catalog_ok 'b
  | Catalog_invalid ZodError
  | Catalog_failed

fun catalog_status :: "'b catalog_response \<Rightarrow> nat" where
  "catalog_status (Catalog_ok body) = 200"
| "catalog_status (Catalog_invalid details) = 400"
| "catalog_status Catalog_failed = 500"

definition GET ::
  "(string \<Rightarrow> 'n) \<Rightarrow> (string \<Rightarrow> 'n) \<Rightarrow> ('n ProductQuery \<Rightarrow> thrown + 'b) \<Rightarrow> (string \<rightharpoonup> string)
     \<Rightarrow> 'b catalog_response" where
  "GET parseInt parseFloat run_query queryParams =
     (case ProductQuerySchema_parse parseInt parseFloat queryParams of
        Inl e \<Rightarrow> Catalog_invalid e
      | Inr query \<Rightarrow>
          (case run_query query of
             Inl t \<Rightarrow> Catalog_failed
           | Inr body \<Rightarrow> Catalog_ok body))"

section \<open>Concrete carts, catalogues and requests\<close>

text \<open>Customization payloads given by their JSON text, which serializes to itself.\<close>

definition ser_text :: "string \<Rightarrow> string option" where
  "ser_text c = Some c"

definition saree :: "string CartItem" where
  "saree = \<lparr>ci_id = ''a'', ci_productId = ''p1'', ci_variantId = Some ''v1'',
            ci_name = ''Silk saree'', ci_image = ''/saree.jpg'', ci_price = 60,
            ci_quantity = 2, ci_size = None, ci_color = Some ''red'',
            ci_customizations = None, ci_maxQuantity = 5, ci_sku = ''SAR-1-R''\<rparr>"

definition cart_one :: "string CartState" where
  "cart_one = \<lparr>items = [saree], isOpen = True\<rparr>"

definition cart_empty :: "string CartState" where
  "cart_empty = \<lparr>items = [], isOpen = False\<rparr>"

text \<open>A small catalogue: a product with a sale price, two images and two variants, a
  product without variants, and a product that is no longer active.\<close>

definition kurta :: Product where
  "kurta = \<lparr>p_id = ''p1'', p_name = ''Kurta'', p_basePrice = 80, p_salePrice = Some 60,
            p_sku = ''KUR'', p_stockQuantity = 3,
            p_images = [\<lparr>img_url = ''/kurta-back.jpg'', img_sortOrder = 2\<rparr>,
                        \<lparr>img_url = ''/kurta-front.jpg'', img_sortOrder = 1\<rparr>],
            p_variants = [\<lparr>v_id = ''v1'', v_sku = ''KUR-S'', v_price = 65, v_stockQuantity = 4\<rparr>,
                          \<lparr>v_id = ''v2'', v_sku = ''KUR-M'', v_price = 70, v_stockQuantity = 2\<rparr>],
            p_isActive = True\<rparr>"

definition dupatta :: Product where
  "dupatta = \<lparr>p_id = ''p2'', p_name = ''Dupatta'', p_basePrice = 45, p_salePrice = None,
              p_sku = ''DUP'', p_stockQuantity = 10, p_images = [], p_variants = [],
              p_isActive = True\<rparr>"

definition retired :: Product where
  "retired = \<lparr>p_id = ''p3'', p_name = ''Shawl'', p_basePrice = 30, p_salePrice = None,
              p_sku = ''SHA'', p_stockQuantity = 1, p_images = [], p_variants = [],
              p_isActive = False\<rparr>"

definition catalogue :: "Product list" where
  "catalogue = [kurta, dupatta, retired]"

definition line :: "string \<Rightarrow> string option \<Rightarrow> int \<Rightarrow> string RequestItem" where
  "line productId variantId quantity =
     \<lparr>rq_productId = productId, rq_variantId = variantId, rq_quantity = quantity,
      rq_customizations = None\<rparr>"

definition request :: "string RequestItem list \<Rightarrow> thrown + (string, string) RequestBody" where
  "request its =
     Inr \<lparr>rq_items = Some its, rq_shippingAddress = ''12 High Street'',
          rq_billingAddress = ''12 High Street'', rq_customerNotes = None\<rparr>"

text \<open>Arithmetic in which no step rounds. It is double arithmetic wherever every
  intermediate value is a double, as with whole amounts.\<close>

definition exact_arith :: arith where
  "exact_arith = \<lparr>toNumber = (\<lambda>x. x), num_mul = (\<lambda>x y. x * y), num_add = (\<lambda>x y. x + y)\<rparr>"

text \<open>A request in which nothing fails outside the handler, and an older order.\<close>

definition env_ok :: env where
  "env_ok = \<lparr>env_session = Inr (Some ''u1''), env_date_now = ''1700000000000'',
             env_findMany_fault = None, env_create_fault = None,
             env_unique_violation = Thrown_Error ''Unique constraint failed'',
             env_new_order_id = ''o2'',
             env_stripe = Inr \<lparr>ss_id = ''cs_1'', ss_url = Some ''https://pay.example/cs_1''\<rparr>,
             env_update_fault = None\<rparr>"

definition old_order :: "(string, string) Order" where
  "old_order = \<lparr>o_id = ''o1'', o_orderNumber = ''GD1600000000000'', o_userId = None,
                o_status = DELIVERED, o_paymentStatus = PAYMENT_PAID, o_subtotal = 45,
                o_taxAmount = 0, o_shippingAmount = 19.99, o_discountAmount = 0,
                o_totalAmount = 64.99, o_shippingAddress = ''1 Mill Lane'',
                o_billingAddress = ''1 Mill Lane'', o_customerNotes = None,
                o_stripePaymentId = Some ''cs_0'', o_items = []\<rparr>"

section \<open>Theorems about the cart store\<close>

subsection \<open>Auxiliary facts\<close>

lemma findIndex_Some:
  "findIndex P xs = Some i \<Longrightarrow> i < length xs \<and> P (xs ! i) \<and> (\<forall>j<i. \<not> P (xs ! j))"
proof (induction xs arbitrary: i)
  case Nil
  then show ?case by simp
next
  case (Cons x xs)
  show ?case
  proof (cases "P x")
    case True
    with Cons.prems show ?thesis by simp
  next
    case False
    with Cons.prems obtain k where k: "findIndex P xs = Some k" "i = Suc k"
      by (auto split: option.splits)
    from Cons.IH[OF k(1)] False k(2) show ?thesis
      by (auto simp: less_Suc_eq_0_disj)
  qed
qed

lemma findIndex_None: "findIndex P xs = None \<longleftrightarrow> (\<forall>x\<in>set xs. \<not> P x)"
  by (induction xs) (auto split: option.splits)

lemma findIndex_append_last:
  "\<forall>x\<in>set xs. \<not> P x \<Longrightarrow> P y \<Longrightarrow> findIndex P (xs @ [y]) = Some (length xs)"
  by (induction xs) auto

lemma same_line_key: "same_line ser a b \<longleftrightarrow> line_key ser a = line_key ser b"
  by (auto simp: same_line_def line_key_def)

lemma find_Some_id:
  "find (\<lambda>item. ci_id item = itemId) xs = Some item \<Longrightarrow> item \<in> set xs \<and> ci_id item = itemId"
  by (induction xs) (auto split: if_splits)

lemma distinct_ids_unique:
  "distinct (map ci_id xs) \<Longrightarrow> a \<in> set xs \<Longrightarrow> b \<in> set xs \<Longrightarrow> ci_id a = ci_id b \<Longrightarrow> a = b"
  by (meson distinct_map inj_onD)

lemma map_ids_update_quantity:
  "i < length xs \<Longrightarrow> map ci_id (xs[i := (xs ! i)\<lparr>ci_quantity := q\<rparr>]) = map ci_id xs"
  by (simp add: map_update list_update_same_conv)

lemma map_ids_map_quantity:
  "map ci_id (map (\<lambda>item. if ci_id item = itemId then item\<lparr>ci_quantity := q\<rparr> else item) xs) = map ci_id xs"
  by (induction xs) auto

lemma addItem_cart_ok:
  assumes ok: "cart_ok st" and q: "1 \<le> ci_quantity newItem" and fresh: "fresh \<notin> ci_id ` set (items st)"
  shows "cart_ok (snd (addItem ser fresh newItem st))"
proof (cases "findIndex (\<lambda>item. same_line ser item newItem) (items st)")
  case None
  with ok q fresh show ?thesis
    by (auto simp: addItem_def cart_ok_def quantities_in_range_def openCart_def)
next
  case (Some i)
  then have i: "i < length (items st)" by (auto dest: findIndex_Some)
  let ?e = "items st ! i"
  from ok i have e: "1 \<le> ci_quantity ?e" "ci_quantity ?e \<le> ci_maxQuantity ?e"
    by (auto simp: cart_ok_def quantities_in_range_def list_all_length)
  show ?thesis
  proof (cases "ci_quantity ?e + ci_quantity newItem > ci_maxQuantity ?e")
    case True
    with Some ok show ?thesis by (simp add: addItem_def Let_def)
  next
    case False
    have "list_all (\<lambda>item. 1 \<le> ci_quantity item \<and> ci_quantity item \<le> ci_maxQuantity item)
            ((items st)[i := ?e\<lparr>ci_quantity := ci_quantity ?e + ci_quantity newItem\<rparr>])"
      using ok i e q False
      by (auto simp: cart_ok_def quantities_in_range_def list_all_length nth_list_update)
    moreover have "distinct (map ci_id ((items st)[i := ?e\<lparr>ci_quantity := ci_quantity ?e + ci_quantity newItem\<rparr>]))"
      using ok i by (simp add: map_ids_update_quantity cart_ok_def)
    ultimately show ?thesis
      using Some False by (simp add: addItem_def Let_def cart_ok_def quantities_in_range_def openCart_def)
  qed
qed

lemma removeItem_cart_ok: "cart_ok st \<Longrightarrow> cart_ok (snd (removeItem itemId st))"
  by (auto simp: removeItem_def cart_ok_def quantities_in_range_def list_all_iff distinct_map_filter)

lemma updateQuantity_cart_ok:
  assumes ok: "cart_ok st"
  shows "cart_ok (snd (updateQuantity itemId q st))"
proof (cases "q \<le> 0")
  case True
  with ok show ?thesis by (simp add: updateQuantity_def removeItem_cart_ok)
next
  case pos: False
  show ?thesis
  proof (cases "find (\<lambda>item. ci_id item = itemId) (items st)")
    case None
    with pos ok show ?thesis by (simp add: updateQuantity_def)
  next
    case (Some item)
    then have item: "item \<in> set (items st)" "ci_id item = itemId" by (auto dest: find_Some_id)
    show ?thesis
    proof (cases "q > ci_maxQuantity item")
      case True
      with pos Some ok show ?thesis by (simp add: updateQuantity_def)
    next
      case False
      have same: "x = item" if "x \<in> set (items st)" "ci_id x = itemId" for x
        using distinct_ids_unique[of "items st" x item] ok that item by (simp add: cart_ok_def)
      have "list_all (\<lambda>item. 1 \<le> ci_quantity item \<and> ci_quantity item \<le> ci_maxQuantity item)
              (map (\<lambda>item. if ci_id item = itemId then item\<lparr>ci_quantity := q\<rparr> else item) (items st))"
        using ok pos False same by (auto simp: cart_ok_def quantities_in_range_def list_all_iff)
      moreover have "distinct (map ci_id
              (map (\<lambda>item. if ci_id item = itemId then item\<lparr>ci_quantity := q\<rparr> else item) (items st)))"
        using ok by (simp only: map_ids_map_quantity cart_ok_def)
      ultimately show ?thesis
        using pos Some False
        by (simp add: updateQuantity_def cart_ok_def quantities_in_range_def del: map_map)
    qed
  qed
qed

lemma clearCart_cart_ok: "cart_ok (snd (clearCart st))"
  by (simp add: clearCart_def cart_ok_def quantities_in_range_def)

lemma line_key_quantity [simp]: "line_key ser (e\<lparr>ci_quantity := q\<rparr>) = line_key ser e"
  by (simp add: line_key_def)

lemma line_key_id [simp]: "line_key ser (e\<lparr>ci_id := q\<rparr>) = line_key ser e"
  by (simp add: line_key_def)

text \<open>First call of a run: nothing in the cart has the tuple.\<close>

lemma addItem_first:
  assumes "\<forall>e\<in>set (items st). line_key ser e \<noteq> line_key ser x"
  shows "addItem ser f x st =
     (if ci_quantity x > ci_maxQuantity x then ([Toast_error_stock (ci_maxQuantity x)], st)
      else ([Toast_success_added (ci_name x), SetTimeout_closeCart 3000],
            \<lparr>items = items st @ [x\<lparr>ci_id := f\<rparr>], isOpen = True\<rparr>))"
proof -
  have "findIndex (\<lambda>item. same_line ser item x) (items st) = None"
    using assms by (simp add: findIndex_None same_line_key)
  then show ?thesis by (simp add: addItem_def openCart_def)
qed

text \<open>Later call of a run: the entry of the tuple is the last one of the cart.\<close>

lemma addItem_later:
  assumes "\<forall>e\<in>set pre. line_key ser e \<noteq> line_key ser x"
    and "line_key ser e = line_key ser x" and "items st = pre @ [e]"
  shows "addItem ser f x st =
     (if ci_quantity e + ci_quantity x > ci_maxQuantity e then ([Toast_error_stock (ci_maxQuantity e)], st)
      else ([Toast_success_updated, SetTimeout_closeCart 3000],
            \<lparr>items = pre @ [e\<lparr>ci_quantity := ci_quantity e + ci_quantity x\<rparr>], isOpen = True\<rparr>))"
proof -
  have "findIndex (\<lambda>item. same_line ser item x) (pre @ [e]) = Some (length pre)"
    using assms(1,2) by (intro findIndex_append_last) (simp_all add: same_line_key)
  then show ?thesis using assms(3) by (simp add: addItem_def openCart_def Let_def)
qed

lemma requested_Cons: "requested (c # cs) = ci_quantity (snd c) + requested cs"
  by (simp add: requested_def)

lemma requested_snoc: "requested (cs @ [c]) = requested cs + ci_quantity (snd c)"
  by (simp add: requested_def)

lemma addItems_snoc: "addItems ser (cs @ [c]) st = snd (addItem ser (fst c) (snd c) (addItems ser cs st))"
  by (induction cs arbitrary: st) auto

lemma addItems_run:
  assumes key: "\<forall>c\<in>set calls. line_key ser (snd c) = k"
    and none: "\<forall>e\<in>set (items st). line_key ser e \<noteq> k"
    and bound: "\<forall>n. 0 < n \<and> n \<le> length calls \<longrightarrow>
                  requested (take n calls) \<le> ci_maxQuantity (snd (hd calls))"
    and ne: "calls \<noteq> []"
  shows "addItems ser calls st = \<lparr>items = items st @ [merged_entry calls], isOpen = True\<rparr>"
  using assms
proof (induction calls rule: rev_induct)
  case Nil
  then show ?case by simp
next
  case (snoc c cs)
  show ?case
  proof (cases "cs = []")
    case True
    from snoc.prems(3)[rule_format, of 1] True have "ci_quantity (snd c) \<le> ci_maxQuantity (snd c)"
      by (simp add: requested_def)
    moreover have "\<forall>e\<in>set (items st). line_key ser e \<noteq> line_key ser (snd c)"
      using snoc.prems(1,2) by simp
    ultimately show ?thesis using True
      by (simp add: addItem_first merged_entry_def requested_def)
  next
    case False
    have hd: "hd (cs @ [c]) = hd cs" using False by simp
    have b: "\<forall>n. 0 < n \<and> n \<le> length cs \<longrightarrow> requested (take n cs) \<le> ci_maxQuantity (snd (hd cs))"
    proof (intro allI impI)
      fix n assume n: "0 < n \<and> n \<le> length cs"
      with snoc.prems(3)[rule_format, of n] hd show "requested (take n cs) \<le> ci_maxQuantity (snd (hd cs))"
        by simp
    qed
    have IH: "addItems ser cs st = \<lparr>items = items st @ [merged_entry cs], isOpen = True\<rparr>"
      using snoc.IH snoc.prems(1,2) b False by simp
    have hdk: "line_key ser (snd (hd cs)) = k" using snoc.prems(1) False by simp
    have ck: "line_key ser (snd c) = k" using snoc.prems(1) by simp
    have tot: "requested (cs @ [c]) \<le> ci_maxQuantity (snd (hd cs))"
      using snoc.prems(3)[rule_format, of "length (cs @ [c])"] hd by simp
    have "addItem ser (fst c) (snd c) \<lparr>items = items st @ [merged_entry cs], isOpen = True\<rparr> =
      ([Toast_success_updated, SetTimeout_closeCart 3000],
        \<lparr>items = items st @ [(merged_entry cs)\<lparr>ci_quantity := ci_quantity (merged_entry cs) + ci_quantity (snd c)\<rparr>], isOpen = True\<rparr>)"
      using addItem_later[of "items st" ser "snd c" "merged_entry cs" "\<lparr>items = items st @ [merged_entry cs], isOpen = True\<rparr>" "fst c"]
        snoc.prems(2) ck hdk tot
      by (simp add: merged_entry_def requested_snoc)
    then show ?thesis
      using IH hd by (simp add: addItems_snoc merged_entry_def requested_snoc)
  qed
qed

subsection \<open>Absent identities\<close>

lemma find_None_iff_absent:
  "find (\<lambda>item. ci_id item = itemId) xs = None \<longleftrightarrow> itemId \<notin> ci_id ` set xs"
  by (induction xs) auto

text \<open>
  C10. For a cart in which no item carries the identity \<open>itemId\<close>, and a quantity
  \<open>q > 0\<close>, \<open>updateQuantity itemId q\<close> changes neither the item sequence nor the
  visibility flag and produces no effect at all (no toast, so no error signal).
\<close>

theorem updateQuantity_absent_noop:
  assumes "itemId \<notin> ci_id ` set (items st)" and "0 < q"
  shows "updateQuantity itemId q st = ([], st)"
proof -
  have "find (\<lambda>item. ci_id item = itemId) (items st) = None"
    using assms(1) by (simp add: find_None_iff_absent)
  with assms(2) show ?thesis
    by (simp add: updateQuantity_def)
qed

theorem updateQuantity_absent_noop_witness:
  "''zz'' \<notin> ci_id ` set (items cart_one) \<and> (0::int) < 3 \<and>
   updateQuantity ''zz'' 3 cart_one = ([], cart_one)"
proof -
  have a: "''zz'' \<notin> ci_id ` set (items cart_one)"
    by (simp add: cart_one_def saree_def)
  have b: "(0::int) < 3" by simp
  from updateQuantity_absent_noop [OF a b] a b show ?thesis by simp
qed

subsection \<open>The quantity invariant\<close>

text \<open>
  What the operations do keep. In a cart whose quantities lie in \<open>[1, maxQuantity]\<close> and
  whose identities are pairwise different, every operation keeps both properties,
  provided an \<open>addItem\<close> asks for at least one piece under a new identity. An \<open>addItem\<close>
  or a positive \<open>updateQuantity\<close> that would exceed the ceiling of its entry is rejected:
  the state is returned as it was, with the stock-limit error toast, and nothing is
  clamped. So the upper bound is guarded everywhere, and the lower bound everywhere but
  in \<open>addItem\<close>.
\<close>

lemma cart_ops_keep_invariant:
  assumes "cart_ok st"
  shows "(well_formed_op op st \<longrightarrow> cart_ok (snd (apply_op ser op st))) \<and>
         (\<forall>m. over_limit ser op st = Some m \<longrightarrow> apply_op ser op st = ([Toast_error_stock m], st))"
proof (cases op)
  case (AddItem fresh newItem)
  have "over_limit ser (AddItem fresh newItem) st = Some m \<Longrightarrow>
        addItem ser fresh newItem st = ([Toast_error_stock m], st)" for m
    by (auto simp: addItem_def Let_def split: option.splits if_splits)
  with AddItem assms show ?thesis
    by (simp add: addItem_cart_ok)
next
  case (RemoveItem itemId)
  with assms show ?thesis by (simp add: removeItem_cart_ok)
next
  case (UpdateQuantity itemId q)
  have "over_limit ser (UpdateQuantity itemId q) st = Some m \<Longrightarrow>
        updateQuantity itemId q st = ([Toast_error_stock m], st)" for m
    by (auto simp: updateQuantity_def split: option.splits if_splits)
  with UpdateQuantity assms show ?thesis
    by (simp add: updateQuantity_cart_ok)
next
  case ClearCart
  then show ?thesis by (simp add: clearCart_cart_ok)
qed

text \<open>
  C2. \<open>addItem\<close> compares the requested quantity with the ceiling only. A new item with
  quantity 0, or with a negative quantity, is therefore not rejected: it is appended with
  the success toast, and the cart, which had every quantity in \<open>[1, maxQuantity]\<close>, no
  longer has. The same holds on the merging path, where a negative request brings the
  entry's quantity below 1.
\<close>

theorem addItem_accepts_nonpositive_quantity:
  "quantities_in_range cart_empty \<and>
   addItem ser_text ''n'' (saree\<lparr>ci_quantity := 0\<rparr>) cart_empty
     = ([Toast_success_added ''Silk saree'', SetTimeout_closeCart 3000],
        \<lparr>items = [saree\<lparr>ci_id := ''n'', ci_quantity := 0\<rparr>], isOpen = True\<rparr>) \<and>
   \<not> quantities_in_range (snd (addItem ser_text ''n'' (saree\<lparr>ci_quantity := 0\<rparr>) cart_empty)) \<and>
   \<not> quantities_in_range (snd (addItem ser_text ''n'' (saree\<lparr>ci_quantity := - 2\<rparr>) cart_empty)) \<and>
   quantities_in_range cart_one \<and>
   addItem ser_text ''n'' (saree\<lparr>ci_quantity := - 3\<rparr>) cart_one
     = ([Toast_success_updated, SetTimeout_closeCart 3000],
        \<lparr>items = [saree\<lparr>ci_quantity := - 1\<rparr>], isOpen = True\<rparr>) \<and>
   \<not> quantities_in_range (snd (addItem ser_text ''n'' (saree\<lparr>ci_quantity := - 3\<rparr>) cart_one))"
  by (simp add: quantities_in_range_def cart_empty_def cart_one_def saree_def
        addItem_def openCart_def same_line_def JSON_stringify_def)

subsection \<open>Merging\<close>

text \<open>
  C4. Take a cart with no entry of the tuple \<open>k\<close> and a run of \<open>addItem\<close> calls whose
  items all have the tuple \<open>k\<close>, such that the sum of the quantities requested so far
  never exceeds the \<open>maxQuantity\<close> of the entry (that of the first call). After the run
  the cart is the old item sequence followed by one entry of the tuple, whose quantity
  is the sum of the requested quantities; it is the only entry of the tuple. A further
  call of the tuple that would push the sum past the entry's \<open>maxQuantity\<close> gives the
  stock-limit error toast and the cart unchanged.
\<close>

theorem addItem_merges_identical_tuples:
  assumes "\<forall>c\<in>set calls. line_key ser (snd c) = k"
    and "\<forall>e\<in>set (items st). line_key ser e \<noteq> k"
    and "\<forall>n. 0 < n \<and> n \<le> length calls \<longrightarrow>
           requested (take n calls) \<le> ci_maxQuantity (snd (hd calls))"
    and "calls \<noteq> []"
  shows "items (addItems ser calls st) = items st @ [merged_entry calls] \<and>
         line_key ser (merged_entry calls) = k \<and>
         ci_quantity (merged_entry calls) = requested calls \<and>
         filter (\<lambda>e. line_key ser e = k) (items (addItems ser calls st)) = [merged_entry calls] \<and>
         (\<forall>fresh x. line_key ser x = k \<and>
                requested calls + ci_quantity x > ci_maxQuantity (snd (hd calls)) \<longrightarrow>
              addItem ser fresh x (addItems ser calls st) =
                ([Toast_error_stock (ci_maxQuantity (snd (hd calls)))], addItems ser calls st))"
proof -
  have run: "addItems ser calls st = \<lparr>items = items st @ [merged_entry calls], isOpen = True\<rparr>"
    using assms by (rule addItems_run)
  have hd: "hd calls \<in> set calls" using assms(4) by simp
  have key: "line_key ser (merged_entry calls) = k"
    using assms(1) hd by (simp add: merged_entry_def)
  have qty: "ci_quantity (merged_entry calls) = requested calls"
    by (simp add: merged_entry_def)
  have only: "filter (\<lambda>e. line_key ser e = k) (items st @ [merged_entry calls]) = [merged_entry calls]"
    using assms(2) key by (simp add: filter_empty_conv)
  have reject: "addItem ser fresh x (addItems ser calls st) =
      ([Toast_error_stock (ci_maxQuantity (snd (hd calls)))], addItems ser calls st)"
    if "line_key ser x = k" "requested calls + ci_quantity x > ci_maxQuantity (snd (hd calls))"
    for fresh x
    using addItem_later[of "items st" ser x "merged_entry calls" "addItems ser calls st" fresh]
      assms(2) key that run
    by (simp add: merged_entry_def)
  from run key qty only reject show ?thesis by simp
qed

theorem addItem_merges_identical_tuples_witness:
  "items (addItems ser_text [(''a'', saree), (''b'', saree\<lparr>ci_quantity := 3\<rparr>)] cart_empty)
     = [saree\<lparr>ci_quantity := 5\<rparr>] \<and>
   addItem ser_text ''c'' saree
       (addItems ser_text [(''a'', saree), (''b'', saree\<lparr>ci_quantity := 3\<rparr>)] cart_empty)
     = ([Toast_error_stock 5],
        addItems ser_text [(''a'', saree), (''b'', saree\<lparr>ci_quantity := 3\<rparr>)] cart_empty)"
proof -
  let ?calls = "[(''a'', saree), (''b'', saree\<lparr>ci_quantity := 3\<rparr>)]"
  let ?k = "line_key ser_text saree"
  have h1: "\<forall>c\<in>set ?calls. line_key ser_text (snd c) = ?k" by simp
  have h2: "\<forall>e\<in>set (items cart_empty). line_key ser_text e \<noteq> ?k"
    by (simp add: cart_empty_def)
  have h3: "\<forall>n. 0 < n \<and> n \<le> length ?calls \<longrightarrow>
              requested (take n ?calls) \<le> ci_maxQuantity (snd (hd ?calls))"
  proof (intro allI impI)
    fix n :: nat assume "0 < n \<and> n \<le> length ?calls"
    then have "n = 1 \<or> n = 2" by auto
    then show "requested (take n ?calls) \<le> ci_maxQuantity (snd (hd ?calls))"
      by (auto simp: requested_def saree_def numeral_2_eq_2)
  qed
  have h4: "?calls \<noteq> []" by simp
  from addItem_merges_identical_tuples [OF h1 h2 h3 h4]
  show ?thesis
    by (simp add: merged_entry_def requested_def saree_def cart_empty_def)
qed

subsection \<open>Persistence\<close>

text \<open>
  C9. Saving the persisted portion of any cart state and restoring it gives back the
  same item sequence, and a closed cart, whatever the visibility flag was: the persisted
  portion holds the items only.
\<close>

theorem persist_round_trip:
  "items (rehydrate (Some (partialize st))) = items st \<and>
   isOpen (rehydrate (Some (partialize st))) = False \<and>
   partialize (st\<lparr>isOpen := b\<rparr>) = partialize st"
  by (simp add: rehydrate_def partialize_def merge_def initialState_def)

subsection \<open>Shipping\<close>

text \<open>
  C6. The shipping helper of the cart and the one of the checkout give the same amount
  for every subtotal, and that amount is the one of the schedule: 0 from 150 on, 9.99
  from 100 on, 14.99 from 50 on, 19.99 below 50.
\<close>

theorem calculateShipping_agree:
  "calculateShipping_cart subtotal = calculateShipping subtotal \<and>
   calculateShipping subtotal = shipping_schedule subtotal \<and>
   calculateShipping 150 = 0 \<and> calculateShipping 100 = 9.99 \<and>
   calculateShipping 50 = 14.99 \<and> calculateShipping 120 = 9.99 \<and>
   calculateShipping 40 = 19.99"
  by (simp add: calculateShipping_cart_def calculateShipping_def shipping_schedule_def)

section \<open>Theorems about the checkout endpoint\<close>

subsection \<open>Auxiliary facts\<close>

lemma find_Some_set: "find P xs = Some x \<Longrightarrow> x \<in> set xs \<and> P x"
  by (induction xs) (auto split: if_splits)

lemma resolve_variant_Inr:
  assumes "resolve_variant product cartItem = Inr variant"
  shows "variant = (if variant_given cartItem then find_variant product cartItem else None)"
    and "variant_given cartItem \<Longrightarrow> \<exists>v. variant = Some v"
proof -
  show "variant = (if variant_given cartItem then find_variant product cartItem else None)"
    using assms
    by (auto simp: resolve_variant_def variant_given_def find_variant_def
             split: option.splits if_splits)
  show "\<exists>v. variant = Some v" if "variant_given cartItem"
  proof (cases "rq_variantId cartItem")
    case None
    with that show ?thesis by (simp add: variant_given_def)
  next
    case (Some variantId)
    with that have ne: "variantId \<noteq> []" by (simp add: variant_given_def)
    show ?thesis
    proof (cases "find (\<lambda>v. v_id v = variantId) (p_variants product)")
      case None
      with Some ne assms show ?thesis by (simp add: resolve_variant_def)
    next
      case (Some v)
      with \<open>rq_variantId cartItem = Some variantId\<close> ne assms show ?thesis
        by (auto simp: resolve_variant_def)
    qed
  qed
qed

lemma find_variant_Some:
  "find_variant product cartItem = Some v \<Longrightarrow> v \<in> set (p_variants product) \<and> Some (v_id v) = rq_variantId cartItem"
  unfolding find_variant_def by (drule find_Some_set) simp

lemma order_item_snapshot:
  assumes f: "find (\<lambda>p. p_id p = rq_productId cartItem) products = Some product"
    and r: "resolve_variant product cartItem = Inr variant"
  shows "\<exists>oi. order_item ar products cartItem = Some oi \<and> snapshot_of ar products cartItem oi \<and>
           oi_unitPrice oi = unit_price product variant \<and> oi_quantity oi = rq_quantity cartItem"
proof -
  from f have p: "product \<in> set products" "p_id product = rq_productId cartItem"
    by (auto dest: find_Some_set)
  note v = resolve_variant_Inr[OF r]
  show ?thesis
  proof (cases "variant_given cartItem")
    case True
    with v obtain w where w: "variant = Some w" "find_variant product cartItem = Some w" by auto
    from find_variant_Some[OF w(2)] have "w \<in> set (p_variants product)" "Some (v_id w) = rq_variantId cartItem"
      by auto
    with True w p f show ?thesis
      by (auto simp: order_item_def snapshot_of_def unit_price_def snapshot_sku_def Let_def
          intro!: bexI[of _ product] bexI[of _ w])
  next
    case False
    with v have "variant = None" by simp
    with False p f show ?thesis
      by (auto simp: order_item_def snapshot_of_def unit_price_def snapshot_sku_def Let_def
          effective_price_def intro!: bexI[of _ product])
  qed
qed

lemma validate_lines_Inr:
  "validate_lines ar products its lineItems subtotal = Inr (lineItems', subtotal') \<Longrightarrow>
   \<exists>ois. order_items ar products its = Some ois \<and> list_all2 (snapshot_of ar products) its ois \<and>
         subtotal' = foldl (line_step ar) subtotal ois"
proof (induction its arbitrary: lineItems subtotal)
  case Nil
  then show ?case by simp
next
  case (Cons cartItem rest)
  from Cons.prems obtain product where
    f: "find (\<lambda>p. p_id p = rq_productId cartItem) products = Some product"
    by (auto split: option.splits)
  from Cons.prems f obtain variant where r: "resolve_variant product cartItem = Inr variant"
    by (auto split: sum.splits)
  let ?price = "toNumber ar (unit_price product variant)"
  from Cons.prems f r have
    rest: "validate_lines ar products rest
             (lineItems @ [\<lparr>sl_name = p_name product,
                  sl_unit_amount = Math_round (num_mul ar ?price 100),
                  sl_quantity = rq_quantity cartItem\<rparr>])
             (num_add ar subtotal (num_mul ar ?price (of_int (rq_quantity cartItem))))
           = Inr (lineItems', subtotal')"
    by (auto simp: Let_def split: if_splits)
  from Cons.IH[OF rest] obtain ois where
    ois: "order_items ar products rest = Some ois" "list_all2 (snapshot_of ar products) rest ois"
      "subtotal' = foldl (line_step ar)
                     (num_add ar subtotal (num_mul ar ?price (of_int (rq_quantity cartItem)))) ois"
    by auto
  from order_item_snapshot[OF f r] obtain oi where
    oi: "order_item ar products cartItem = Some oi" "snapshot_of ar products cartItem oi"
      "oi_unitPrice oi = unit_price product variant" "oi_quantity oi = rq_quantity cartItem"
    by auto
  have step: "num_add ar subtotal (num_mul ar ?price (of_int (rq_quantity cartItem)))
                = line_step ar subtotal oi"
    using oi(3,4) by (simp add: line_step_def)
  from ois oi(1,2) show ?case
    by (simp add: step)
qed

lemma validate_lines_Inl:
  "validate_lines ar products its lineItems subtotal = Inl failure \<Longrightarrow> http_status failure = 400"
proof (induction its arbitrary: lineItems subtotal)
  case Nil
  then show ?case by simp
next
  case (Cons cartItem rest)
  then show ?case
    by (auto simp: Let_def resolve_variant_def split: option.splits sum.splits if_splits)
qed

lemma update_other_ids:
  "orderId \<notin> set (map o_id orders) \<Longrightarrow>
   map (\<lambda>order. if o_id order = orderId then f order else order) orders = orders"
  by (induction orders) auto

lemma place_order_result:
  assumes "place_order ar env userId body its products lineItems subtotal orders = (r, orders', calls)"
  shows "(\<exists>t. r = Inl t) \<or>
         (\<exists>sessionId url. r = Inr (Json_session sessionId url (env_new_order_id env)))"
  using assms
  by (auto simp: place_order_def Let_def split: option.splits sum.splits)

lemma place_order_success:
  assumes "place_order ar env userId body its products lineItems subtotal orders
             = (Inr resp, orders', calls)"
  shows "\<exists>ois sessionId url.
           order_items ar products its = Some ois \<and>
           resp = Json_session sessionId url (env_new_order_id env) \<and>
           orders' = orders @
             [\<lparr>o_id = env_new_order_id env,
               o_orderNumber = ''GD'' @ env_date_now env,
               o_userId = userId,
               o_status = PENDING,
               o_paymentStatus = PAYMENT_PENDING,
               o_subtotal = subtotal,
               o_taxAmount = 0,
               o_shippingAmount = calculateShipping subtotal,
               o_discountAmount = 0,
               o_totalAmount = num_add ar subtotal (calculateShipping subtotal),
               o_shippingAddress = rq_shippingAddress body,
               o_billingAddress = rq_billingAddress body,
               o_customerNotes = rq_customerNotes body,
               o_stripePaymentId = Some sessionId,
               o_items = ois\<rparr>]"
  using assms
  by (auto simp: place_order_def order_create_def order_update_def Let_def update_other_ids
           split: option.splits sum.splits if_splits)

lemma checkout_try_Inr:
  assumes "checkout_try ar env table req orders = (Inr resp, orders', calls)"
  shows "(http_status resp = 400 \<and> orders' = orders \<and> calls = []) \<or>
         (\<exists>userId body its lineItems subtotal.
            env_session env = Inr userId \<and> req = Inr body \<and> rq_items body = Some its \<and>
            validate_lines ar (product_findMany table (map rq_productId its)) its [] 0
              = Inr (lineItems, subtotal) \<and>
            place_order ar env userId body its (product_findMany table (map rq_productId its))
              lineItems subtotal orders = (Inr resp, orders', calls))"
  using assms
  by (auto simp: checkout_try_def Let_def
           split: option.splits sum.splits if_splits prod.splits dest: validate_lines_Inl)

lemma POST_cases:
  obtains (thrown) t orders' calls where
      "checkout_try ar env table req orders = (Inl t, orders', calls)"
      "POST ar env table req orders = (Json_error 500 (failure_message t), orders', calls @ [Console_error t])"
  | (answered) resp orders' calls where
      "checkout_try ar env table req orders = (Inr resp, orders', calls)"
      "POST ar env table req orders = (resp, orders', calls)"
proof (cases "checkout_try ar env table req orders")
  case (fields r orders' calls)
  show ?thesis
  proof (cases r)
    case (Inl t)
    with fields show ?thesis by (intro thrown[of t orders' calls]) (simp_all add: POST_def)
  next
    case (Inr resp)
    with fields show ?thesis by (intro answered[of resp orders' calls]) (simp_all add: POST_def)
  qed
qed

lemma checkout_try_Inr_status:
  assumes "checkout_try ar env table req orders = (Inr resp, orders', calls)"
  shows "http_status resp = 400 \<or> http_status resp = 200"
  using checkout_try_Inr[OF assms] by (auto dest!: place_order_result)

subsection \<open>Evaluation on the small catalogue\<close>

lemma floor_numeral_quotient:
  "\<lfloor>(numeral a :: rat) / numeral b\<rfloor> = numeral a div numeral b"
  using floor_divide_of_int_eq[of "numeral a" "numeral b", where ?'a = rat] by simp

lemmas checkout_eval = floor_numeral_quotient
  POST_def checkout_try_def place_order_def product_findMany_def resolve_variant_def
  unit_price_def available_stock_def order_item_def variant_given_def find_variant_def
  snapshot_sku_def order_create_def order_update_def calculateShipping_def with_shipping_def
  Math_round_def failure_message_def Let_def
  env_ok_def request_def line_def catalogue_def kurta_def dupatta_def retired_def old_order_def
  exact_arith_def

lemma insufficient_stock_run:
  "POST exact_arith env_ok catalogue (request [line ''p1'' None 5]) [old_order] =
     (Json_error 400 ''Insufficient stock for Kurta'', [old_order], [])"
  by (simp add: checkout_eval)

lemma successful_run:
  "POST exact_arith env_ok catalogue
       (request [line ''p1'' (Some ''v1'') 2, line ''p2'' None 1]) [old_order] =
     (Json_session ''cs_1'' (Some ''https://pay.example/cs_1'') ''o2'',
      [old_order,
       \<lparr>o_id = ''o2'', o_orderNumber = ''GD1700000000000'', o_userId = Some ''u1'',
        o_status = PENDING, o_paymentStatus = PAYMENT_PENDING, o_subtotal = 175,
        o_taxAmount = 0, o_shippingAmount = 0, o_discountAmount = 0,
        o_totalAmount = 175, o_shippingAddress = ''12 High Street'',
        o_billingAddress = ''12 High Street'', o_customerNotes = None,
        o_stripePaymentId = Some ''cs_1'',
        o_items =
          [\<lparr>oi_productId = ''p1'', oi_quantity = 2, oi_unitPrice = 65, oi_totalPrice = 130,
            oi_productName = ''Kurta'', oi_productImage = Some ''/kurta-front.jpg'',
            oi_productSku = ''KUR-S'', oi_customizations = None\<rparr>,
           \<lparr>oi_productId = ''p2'', oi_quantity = 1, oi_unitPrice = 45, oi_totalPrice = 45,
            oi_productName = ''Dupatta'', oi_productImage = None,
            oi_productSku = ''DUP'', oi_customizations = None\<rparr>]\<rparr>],
      [Stripe_sessions_create
         [\<lparr>sl_name = ''Kurta'', sl_unit_amount = 6500, sl_quantity = 2\<rparr>,
          \<lparr>sl_name = ''Dupatta'', sl_unit_amount = 4500, sl_quantity = 1\<rparr>]])"
  by (simp add: checkout_eval)

subsection \<open>Unavailable products\<close>

text \<open>
  C1. The handler compares the number of fetched products with the number of items, not
  with the number of different product ids. A cart with two variants of one active
  product is therefore rejected as unavailable: one product is fetched for the one id
  the two items name, and the store is left as it was.
\<close>

theorem checkout_rejects_repeated_product:
  "POST exact_arith env_ok catalogue (request [line ''p1'' (Some ''v1'') 1, line ''p1'' (Some ''v2'') 1]) [old_order]
     = (Json_error 400 ''Some products are no longer available'', [old_order], []) \<and>
   product_findMany catalogue [''p1'', ''p1'']
     = [kurta\<lparr>p_images := [\<lparr>img_url = ''/kurta-front.jpg'', img_sortOrder = 1\<rparr>]\<rparr>] \<and>
   remdups [''p1'', ''p1''] = [''p1''] \<and>
   p_isActive kurta"
  by (simp add: checkout_eval)

subsection \<open>Validation failures leave the order table alone\<close>

text \<open>
  C3. Whenever the handler answers 400 (no items, an unavailable product or variant, not
  enough stock), the order table is exactly what it was before the request, and no call
  to the payment provider was made.
\<close>

theorem validation_failure_persists_nothing:
  assumes "http_status (fst (POST ar env table req orders)) = 400"
  shows "fst (snd (POST ar env table req orders)) = orders \<and> snd (snd (POST ar env table req orders)) = []"
proof (cases rule: POST_cases[of ar env table req orders])
  case (thrown t orders' calls)
  with assms show ?thesis by simp
next
  case (answered resp orders' calls)
  from checkout_try_Inr[OF answered(1)] show ?thesis
  proof
    assume "http_status resp = 400 \<and> orders' = orders \<and> calls = []"
    with answered(2) show ?thesis by simp
  next
    assume "\<exists>userId body its lineItems subtotal.
            env_session env = Inr userId \<and> req = Inr body \<and> rq_items body = Some its \<and>
            validate_lines ar (product_findMany table (map rq_productId its)) its [] 0
              = Inr (lineItems, subtotal) \<and>
            place_order ar env userId body its (product_findMany table (map rq_productId its))
              lineItems subtotal orders = (Inr resp, orders', calls)"
    then have "http_status resp = 200" by (auto dest!: place_order_result)
    with assms answered(2) show ?thesis by simp
  qed
qed

theorem validation_failure_persists_nothing_witness:
  "http_status (fst (POST exact_arith env_ok catalogue (request [line ''p1'' None 5]) [old_order])) = 400 \<and>
   fst (POST exact_arith env_ok catalogue (request [line ''p1'' None 5]) [old_order])
     = Json_error 400 ''Insufficient stock for Kurta'' \<and>
   fst (snd (POST exact_arith env_ok catalogue (request [line ''p1'' None 5]) [old_order])) = [old_order]"
proof -
  have h: "http_status (fst (POST exact_arith env_ok catalogue (request [line ''p1'' None 5]) [old_order])) = 400"
    by (simp add: insufficient_stock_run)
  from validation_failure_persists_nothing [OF h] h show ?thesis
    by (simp add: insufficient_stock_run)
qed

subsection \<open>The order of a successful checkout\<close>

text \<open>
  C5. Whenever the handler answers with a payment session, the order table has grown by
  exactly one order, the one whose id is returned: its status and its payment status are
  pending, tax and discount are 0, the total is subtotal plus shipping, shipping is the
  schedule's amount for the subtotal, the subtotal is the sum over its lines of unit
  price times quantity, and each line is the snapshot of the requested line taken from
  the products fetched for validation (name, first image, sku, and as unit price the
  variant's price when a variant is given, the sale price or else the base price
  otherwise). Sums and products are those of the handler's numbers, whatever their
  rounding: the statement holds for every \<open>arith\<close>, double arithmetic included.
\<close>

theorem checkout_success_creates_one_pending_order:
  assumes "fst (POST ar env table req orders) = Json_session sessionId url orderId"
  shows "\<exists>body its order.
           req = Inr body \<and> rq_items body = Some its \<and>
           fst (snd (POST ar env table req orders)) = orders @ [order] \<and>
           o_id order = orderId \<and>
           o_status order = PENDING \<and> o_paymentStatus order = PAYMENT_PENDING \<and>
           o_taxAmount order = 0 \<and> o_discountAmount order = 0 \<and>
           o_totalAmount order = num_add ar (o_subtotal order) (o_shippingAmount order) \<and>
           o_shippingAmount order = calculateShipping (o_subtotal order) \<and>
           o_subtotal order = lines_total ar (o_items order) \<and>
           list_all2 (snapshot_of ar (product_findMany table (map rq_productId its))) its (o_items order)"
proof (cases rule: POST_cases[of ar env table req orders])
  case (thrown t orders' calls)
  with assms show ?thesis by simp
next
  case (answered resp orders' calls)
  with assms have resp: "resp = Json_session sessionId url orderId" by simp
  from checkout_try_Inr[OF answered(1)] resp obtain userId body its lineItems subtotal where
    req: "req = Inr body" "rq_items body = Some its"
    and v: "validate_lines ar (product_findMany table (map rq_productId its)) its [] 0
              = Inr (lineItems, subtotal)"
    and p: "place_order ar env userId body its (product_findMany table (map rq_productId its))
              lineItems subtotal orders = (Inr resp, orders', calls)"
    by auto
  let ?products = "product_findMany table (map rq_productId its)"
  from validate_lines_Inr[OF v] obtain ois where
    ois: "order_items ar ?products its = Some ois" "list_all2 (snapshot_of ar ?products) its ois"
      "subtotal = lines_total ar ois"
    by (auto simp: lines_total_def)
  from place_order_success[OF p] ois(1) resp obtain sid where
    o': "orders' = orders @
             [\<lparr>o_id = orderId,
               o_orderNumber = ''GD'' @ env_date_now env,
               o_userId = userId,
               o_status = PENDING,
               o_paymentStatus = PAYMENT_PENDING,
               o_subtotal = subtotal,
               o_taxAmount = 0,
               o_shippingAmount = calculateShipping subtotal,
               o_discountAmount = 0,
               o_totalAmount = num_add ar subtotal (calculateShipping subtotal),
               o_shippingAddress = rq_shippingAddress body,
               o_billingAddress = rq_billingAddress body,
               o_customerNotes = rq_customerNotes body,
               o_stripePaymentId = Some sid,
               o_items = ois\<rparr>]"
    by auto
  from req ois o' answered(2) show ?thesis by simp
qed

theorem checkout_success_creates_one_pending_order_witness:
  "fst (POST exact_arith env_ok catalogue
          (request [line ''p1'' (Some ''v1'') 2, line ''p2'' None 1]) [old_order])
     = Json_session ''cs_1'' (Some ''https://pay.example/cs_1'') ''o2'' \<and>
   (\<exists>order.
      fst (snd (POST exact_arith env_ok catalogue
                  (request [line ''p1'' (Some ''v1'') 2, line ''p2'' None 1]) [old_order]))
        = [old_order] @ [order] \<and>
      o_id order = ''o2'' \<and> o_status order = PENDING \<and> o_paymentStatus order = PAYMENT_PENDING \<and>
      o_subtotal order = 175 \<and> o_shippingAmount order = 0 \<and> o_totalAmount order = 175 \<and>
      o_totalAmount order = num_add exact_arith (o_subtotal order) (o_shippingAmount order) \<and>
      o_subtotal order = lines_total exact_arith (o_items order))"
proof -
  let ?run = "POST exact_arith env_ok catalogue
                (request [line ''p1'' (Some ''v1'') 2, line ''p2'' None 1]) [old_order]"
  have h: "fst ?run = Json_session ''cs_1'' (Some ''https://pay.example/cs_1'') ''o2''"
    by (simp add: successful_run)
  from checkout_success_creates_one_pending_order [OF h]
  obtain order where
    o: "fst (snd ?run) = [old_order] @ [order]" "o_id order = ''o2''" "o_status order = PENDING"
      "o_paymentStatus order = PAYMENT_PENDING"
      "o_totalAmount order = num_add exact_arith (o_subtotal order) (o_shippingAmount order)"
      "o_subtotal order = lines_total exact_arith (o_items order)"
    by blast
  from o(1) have "o_subtotal order = 175" "o_shippingAmount order = 0" "o_totalAmount order = 175"
    by (auto simp: successful_run)
  with h o show ?thesis by blast
qed

subsection \<open>Unexpected failures\<close>

text \<open>
  C8, as the code has it. The handler answers 500 exactly when something was thrown
  inside its \<open>try\<close> block. The thrown value is logged, the order table is left as the
  throw found it, and the message of the response is the message of the thrown \<open>Error\<close>
  itself; the fixed text is used only when the thrown value is not an \<open>Error\<close>.
\<close>

theorem internal_failure_response:
  "(http_status (fst (POST ar env table req orders)) = 500
      \<longleftrightarrow> (\<exists>t. fst (checkout_try ar env table req orders) = Inl t)) \<and>
   (\<forall>t. fst (checkout_try ar env table req orders) = Inl t \<longrightarrow>
      fst (POST ar env table req orders) =
        Json_error 500 (case t of Thrown_Error message \<Rightarrow> message
                        | Thrown_other \<Rightarrow> ''Failed to create checkout session'') \<and>
      fst (snd (POST ar env table req orders)) = fst (snd (checkout_try ar env table req orders)) \<and>
      snd (snd (POST ar env table req orders)) =
        snd (snd (checkout_try ar env table req orders)) @ [Console_error t])"
proof (cases rule: POST_cases[of ar env table req orders])
  case (thrown t orders' calls)
  then show ?thesis by (simp add: failure_message_def)
next
  case (answered resp orders' calls)
  from checkout_try_Inr_status[OF answered(1)] answered show ?thesis by auto
qed

theorem internal_failure_response_witness:
  "fst (checkout_try exact_arith (env_ok\<lparr>env_stripe := Inl Thrown_other\<rparr>) catalogue
          (request [line ''p2'' None 1]) [old_order]) = Inl Thrown_other \<and>
   http_status (fst (POST exact_arith (env_ok\<lparr>env_stripe := Inl Thrown_other\<rparr>) catalogue
          (request [line ''p2'' None 1]) [old_order])) = 500 \<and>
   fst (POST exact_arith (env_ok\<lparr>env_stripe := Inl Thrown_other\<rparr>) catalogue
          (request [line ''p2'' None 1]) [old_order])
     = Json_error 500 ''Failed to create checkout session''"
proof -
  have h: "fst (checkout_try exact_arith (env_ok\<lparr>env_stripe := Inl Thrown_other\<rparr>) catalogue
          (request [line ''p2'' None 1]) [old_order]) = Inl Thrown_other"
    by (simp add: checkout_eval)
  from internal_failure_response [of exact_arith "env_ok\<lparr>env_stripe := Inl Thrown_other\<rparr>" catalogue
          "request [line ''p2'' None 1]" "[old_order]"] h
  show ?thesis by simp
qed

text \<open>
  C8 as written fails: when the payment provider throws an \<open>Error\<close>, its message is the
  message of the 500 response, not the fixed text.
\<close>

theorem internal_failure_counterexample:
  "fst (POST exact_arith (env_ok\<lparr>env_stripe := Inl (Thrown_Error ''Invalid API Key provided: sk_live_1234'')\<rparr>)
          catalogue (request [line ''p2'' None 1]) [old_order])
     = Json_error 500 ''Invalid API Key provided: sk_live_1234'' \<and>
   ''Invalid API Key provided: sk_live_1234'' \<noteq> ''Failed to create checkout session''"
  by (simp add: checkout_eval)

section \<open>Theorems about the catalog endpoint\<close>

lemma sortBy_parse_Inl:
  "(\<exists>e. sortBy_parse val = Inl e) \<longleftrightarrow>
   (\<exists>v. val = Some v \<and> v \<notin> {''featured'', ''price-asc'', ''price-desc'', ''name'', ''newest''})"
  by (cases val) (simp_all add: sortBy_parse_def)

lemma GET_400_iff:
  "catalog_status (GET parseInt parseFloat run_query queryParams) = 400 \<longleftrightarrow>
   (\<exists>v. queryParams ''sortBy'' = Some v \<and>
        v \<notin> {''featured'', ''price-asc'', ''price-desc'', ''name'', ''newest''})"
proof -
  have "catalog_status (GET parseInt parseFloat run_query queryParams) = 400 \<longleftrightarrow>
        (\<exists>e. sortBy_parse (queryParams ''sortBy'') = Inl e)"
    by (auto simp: GET_def ProductQuerySchema_parse_def split: sum.splits)
  then show ?thesis by (simp only: sortBy_parse_Inl)
qed

text \<open>
  C7. The only query parameter the schema checks is \<open>sortBy\<close>. A page that is not a
  number, a page below 1 and a price bound that is not a number all pass the parse (the
  page becomes whatever \<open>parseInt\<close> makes of it) and the request goes on to the query,
  so the answer is never 400; a \<open>sortBy\<close> outside the five words is answered 400.
\<close>

theorem catalog_page_not_validated:
  "catalog_status (GET parseInt parseFloat run_query [''page'' \<mapsto> ''abc'']) \<noteq> 400 \<and>
   catalog_status (GET parseInt parseFloat run_query [''page'' \<mapsto> ''0'']) \<noteq> 400 \<and>
   catalog_status (GET parseInt parseFloat run_query [''minPrice'' \<mapsto> ''cheap'']) \<noteq> 400 \<and>
   ProductQuerySchema_parse parseInt parseFloat [''page'' \<mapsto> ''abc''] =
     Inr \<lparr>q_page = parseInt ''abc'', q_limit = parseInt ''12'', q_category = None,
          q_search = None, q_minPrice = None, q_maxPrice = None, q_occasion = None,
          q_fabric = None, q_color = None, q_size = None, q_sortBy = Featured,
          q_inStock = False\<rparr> \<and>
   catalog_status (GET parseInt parseFloat run_query [''sortBy'' \<mapsto> ''cheapest'']) = 400"
  by (simp add: GET_400_iff ProductQuerySchema_parse_def sortBy_parse_def or_default_def
        optional_number_def)

end
